theory Spec2Isabelle
  imports Main
begin

section \<open>Wire types (frontend/src/types/api.ts)\<close>

text \<open>
  The interfaces of \<^verbatim>\<open>types/api.ts\<close> that the session core reads. Optional fields are
  options. \<^verbatim>\<open>profile_data\<close> (an untyped dictionary nobody reads) is left out.
\<close>

datatype user_status = active | blocked | awaiting

record UserResponse =
  id :: int
  user_pool_id :: int
  username :: "string option"
  email :: "string option"
  phone :: "string option"
  nickname :: "string option"
  avatar_url :: "string option"
  email_verified :: bool
  phone_verified :: bool
  account_status :: user_status
  last_login_at :: "string option"
  created_at :: string
  updated_at :: string

record TokenResponse =
  access_token :: string
  refresh_token :: string
  token_type :: string
  expires_in :: int
  token_user :: UserResponse

record LoginRequest =
  lr_identifier :: string
  lr_password :: string
  lr_user_pool_id :: int

record RegisterRequest =
  rr_username :: string
  rr_password :: string
  rr_email :: "string option"
  rr_phone :: "string option"
  rr_nickname :: "string option"
  rr_user_pool_id :: int

record QRLoginCreateResponse =
  scene_id :: string
  qr_url :: string
  expires_at :: string

text \<open>The five ceremony statuses the server reports.\<close>

datatype qr_status = pending | scanned | confirmed | expired | cancelled

record QRLoginStatusResponse =
  qr_state :: qr_status
  qr_user :: "UserResponse option"
  qr_token :: "TokenResponse option"

text \<open>
  The \<^verbatim>\<open>data\<close> field of a response envelope. TypeScript casts the parsed body to
  the type the caller declares and checks nothing at run time, so one type holds every
  shape the endpoints used here declare; \<open>NoData\<close> is an envelope without \<^verbatim>\<open>data\<close>.
\<close>

datatype payload =
    TokenData TokenResponse
  | UserData UserResponse
  | QRCreateData QRLoginCreateResponse
  | QRStatusData QRLoginStatusResponse
  | BoolData bool
  | NoData

record ApiResponse =
  code :: int
  message :: string
  data :: payload
  timestamp :: string

section \<open>Transport (frontend/src/services/api.ts)\<close>

text \<open>
  What \<^verbatim>\<open>handleResponse\<close> reads out of a response: a JSON content type whose body
  parses, a JSON content type whose body does not parse (\<^verbatim>\<open>response.json()\<close> rejects),
  or any other content type, read as text.
\<close>

datatype body = JsonBody ApiResponse | BadJson | TextBody string

record response =
  http_status :: nat
  statusText :: string
  content :: body

text \<open>The parsed body that \<^verbatim>\<open>handleResponse\<close> returns or attaches to its error.\<close>

datatype parsed = Json ApiResponse | Text string

text \<open>
  The message of a thrown HTTP failure: \<^verbatim>\<open>data?.message\<close> when it is truthy, else the
  line \<^verbatim>\<open>HTTP <status>: <statusText>\<close>, kept here as its two parts.
\<close>

datatype err_message = ServerMessage string | StatusLine nat string

text \<open>
  Every value the code throws: the error of \<^verbatim>\<open>handleResponse\<close> with its \<^verbatim>\<open>status\<close>
  and \<^verbatim>\<open>response.data\<close>, the timeout of \<^verbatim>\<open>fetchWithTimeout\<close>, a rejected
  \<^verbatim>\<open>fetch\<close>, a JSON syntax error, a TypeError of a destructuring, and the two
  errors \<^verbatim>\<open>handleAuthError\<close> creates itself (authentication failed; no refresh token).
\<close>

datatype error =
    HttpError nat err_message parsed
  | RequestTimeout
  | NetworkError
  | SyntaxErr
  | TypeErr
  | AuthFailed
  | NoRefreshToken

text \<open>\<^verbatim>\<open>error.status\<close>: only the error of \<^verbatim>\<open>handleResponse\<close> has one.\<close>

fun err_status :: "error \<Rightarrow> nat option" where
  "err_status (HttpError s m d) = Some s"
| "err_status e = None"

text \<open>\<^verbatim>\<open>error.response.data\<close>, the parsed body of the failed exchange.\<close>

fun err_response_data :: "error \<Rightarrow> parsed option" where
  "err_response_data (HttpError s m d) = Some d"
| "err_response_data e = None"

datatype pvalue = PNum int | PStr string

datatype req_data =
    LoginData LoginRequest
  | RegisterData RegisterRequest
  | RefreshData string

record req_options =
  opt_data :: "req_data option"
  opt_params :: "(string \<times> pvalue option) list option"
  opt_headers :: "(string \<rightharpoonup> string) option"

definition no_options :: req_options where
  "no_options = \<lparr>opt_data = None, opt_params = None, opt_headers = None\<rparr>"

text \<open>
  One call of \<^verbatim>\<open>fetch\<close>: the URL that \<^verbatim>\<open>buildUrl\<close> gives (the endpoint it was
  built from and its query), and the request options.
\<close>

record fetch_call =
  fc_method :: string
  fc_path :: string
  fc_query :: "(string \<times> pvalue) list"
  fc_headers :: "string \<rightharpoonup> string"
  fc_body :: "req_data option"

text \<open>How one \<^verbatim>\<open>fetchWithTimeout\<close> settles: a response, the timeout, or a rejection.\<close>

datatype reply = Responded response | TimedOut | Rejected

text \<open>
  The environment: \<^verbatim>\<open>localStorage\<close>, the replies the network will give to the coming
  calls of \<^verbatim>\<open>fetch\<close> in order, the calls made so far, the last assignment to
  \<^verbatim>\<open>window.location.href\<close>, the last \<^verbatim>\<open>navigate\<close>, and the live interval timers
  (identifier, period in ms and the scene identifier its callback closes over).
  A call that finds no reply left is never answered, so its timeout fires.
  The copy of the session state that the \<^verbatim>\<open>persist\<close> middleware keeps under the key
  \<^verbatim>\<open>auth-storage\<close> is not modelled: nothing reads it back in the operations below.
\<close>

record world =
  localStorage :: "string \<rightharpoonup> string"
  replies :: "reply list"
  calls :: "fetch_call list"
  href :: "string option"
  route :: "string option"
  intervals :: "(nat \<times> nat \<times> string) list"
  interval_seq :: nat

text \<open>JavaScript truthiness of a string that may be null: present and not empty.\<close>

fun truthy :: "string option \<Rightarrow> bool" where
  "truthy None = False"
| "truthy (Some s) = (s \<noteq> [])"

text \<open>\<^verbatim>\<open>String.prototype.includes\<close>.\<close>

fun str_includes :: "string \<Rightarrow> string \<Rightarrow> bool" where
  "str_includes [] sub = (sub = [])"
| "str_includes (c # cs) sub = (take (length sub) (c # cs) = sub \<or> str_includes cs sub)"

definition getItem :: "string \<Rightarrow> world \<Rightarrow> string option" where
  "getItem k w = localStorage w k"

definition setItem :: "string \<Rightarrow> string \<Rightarrow> world \<Rightarrow> world" where
  "setItem k v w = w\<lparr>localStorage := (localStorage w)(k \<mapsto> v)\<rparr>"

definition removeItem :: "string \<Rightarrow> world \<Rightarrow> world" where
  "removeItem k w = w\<lparr>localStorage := (localStorage w)(k := None)\<rparr>"

definition API_headers :: "string \<rightharpoonup> string" where
  "API_headers = [''Content-Type'' \<mapsto> ''application/json'']"

definition fetchWithTimeout :: "fetch_call \<Rightarrow> world \<Rightarrow> reply \<times> world" where
  "fetchWithTimeout c w =
     (case replies w of
        [] \<Rightarrow> (TimedOut, w\<lparr>calls := calls w @ [c]\<rparr>)
      | r # rs \<Rightarrow> (r, w\<lparr>calls := calls w @ [c], replies := rs\<rparr>))"

text \<open>
  \<^verbatim>\<open>buildUrl\<close>: the URL \<^verbatim>\<open>new URL(endpoint, baseURL)\<close> with the parameters that are
  neither undefined nor null appended to its query. The URL is kept as its two inputs,
  the endpoint it is resolved from and the parameters kept; the resolution against the
  base URL (and any normalisation it does to the endpoint) is not computed. The guard of
  \<^verbatim>\<open>handleAuthError\<close> reads the endpoint, not this URL.
\<close>

definition buildUrl ::
  "string \<Rightarrow> (string \<times> pvalue option) list option \<Rightarrow> string \<times> (string \<times> pvalue) list" where
  "buildUrl endpoint params =
     (endpoint,
      case params of
        None \<Rightarrow> []
      | Some ps \<Rightarrow> concat (map (\<lambda>(k, v). case v of None \<Rightarrow> [] | Some x \<Rightarrow> [(k, x)]) ps))"

definition createHeaders :: "(string \<rightharpoonup> string) option \<Rightarrow> world \<Rightarrow> (string \<rightharpoonup> string)" where
  "createHeaders additionalHeaders w =
     (let token = getItem ''access_token'' w;
          headers = (if truthy token
                     then API_headers(''Authorization'' \<mapsto> ''Bearer '' @ the token)
                     else API_headers)
      in case additionalHeaders of None \<Rightarrow> headers | Some extra \<Rightarrow> headers ++ extra)"

definition response_ok :: "response \<Rightarrow> bool" where
  "response_ok r = (200 \<le> http_status r \<and> http_status r \<le> 299)"

definition handleResponse :: "response \<Rightarrow> error + parsed" where
  "handleResponse r =
     (case content r of
        BadJson \<Rightarrow> Inl SyntaxErr
      | JsonBody d \<Rightarrow>
          if \<not> response_ok r
          then Inl (HttpError (http_status r)
                 (if message d \<noteq> [] then ServerMessage (message d)
                  else StatusLine (http_status r) (statusText r))
                 (Json d))
          else Inr (Json d)
      | TextBody t \<Rightarrow>
          if \<not> response_ok r
          then Inl (HttpError (http_status r) (StatusLine (http_status r) (statusText r)) (Text t))
          else Inr (Text t))"

text \<open>What an awaited \<^verbatim>\<open>fetchWithTimeout\<close> followed by \<^verbatim>\<open>handleResponse\<close> gives.\<close>

fun settle :: "reply \<Rightarrow> error + parsed" where
  "settle (Responded r) = handleResponse r"
| "settle TimedOut = Inl RequestTimeout"
| "settle Rejected = Inl NetworkError"

text \<open>\<^verbatim>\<open>response.data\<close> of a parsed body; a property read on a string is undefined.\<close>

fun data_of :: "parsed \<Rightarrow> payload" where
  "data_of (Json d) = data d"
| "data_of (Text t) = NoData"

text \<open>
  Reading a property of \<^verbatim>\<open>response.data\<close>. The code never checks the shape of the
  data, so a property is read from whatever object arrived: it is there when the object
  has a field of that name, and undefined otherwise. A user record and a status response
  both have a \<^verbatim>\<open>status\<close>; a token response and a status response both have a
  \<^verbatim>\<open>user\<close>.
\<close>

fun field_access_token :: "payload \<Rightarrow> string option" where
  "field_access_token (TokenData t) = Some (access_token t)"
| "field_access_token d = None"

fun field_refresh_token :: "payload \<Rightarrow> string option" where
  "field_refresh_token (TokenData t) = Some (refresh_token t)"
| "field_refresh_token d = None"

fun field_user :: "payload \<Rightarrow> UserResponse option" where
  "field_user (TokenData t) = Some (token_user t)"
| "field_user (QRStatusData q) = qr_user q"
| "field_user d = None"

fun field_token :: "payload \<Rightarrow> TokenResponse option" where
  "field_token (QRStatusData q) = qr_token q"
| "field_token d = None"

fun field_scene_id :: "payload \<Rightarrow> string option" where
  "field_scene_id (QRCreateData c) = Some (scene_id c)"
| "field_scene_id d = None"

text \<open>
  What \<^verbatim>\<open>localStorage.setItem\<close> and a template string make of a value that may be
  undefined.
\<close>

fun js_string :: "string option \<Rightarrow> string" where
  "js_string None = ''undefined''"
| "js_string (Some s) = s"

section \<open>Authenticated request pipeline (frontend/src/services/api.ts)\<close>

definition has_body_method :: "string \<Rightarrow> bool" where
  "has_body_method m = (m = ''POST'' \<or> m = ''PUT'' \<or> m = ''PATCH'')"

text \<open>The URL and \<^verbatim>\<open>requestOptions\<close> that \<^verbatim>\<open>makeRequest\<close> builds, headers read now.\<close>

definition requestOptions :: "string \<Rightarrow> string \<Rightarrow> req_options \<Rightarrow> world \<Rightarrow> fetch_call" where
  "requestOptions m endpoint opts w =
     \<lparr>fc_method = m, fc_path = fst (buildUrl endpoint (opt_params opts)),
      fc_query = snd (buildUrl endpoint (opt_params opts)),
      fc_headers = createHeaders (opt_headers opts) w,
      fc_body = (if opt_data opts \<noteq> None \<and> has_body_method m then opt_data opts else None)\<rparr>"

definition makeRequest ::
  "string \<Rightarrow> string \<Rightarrow> req_options \<Rightarrow> world \<Rightarrow> (error + parsed) \<times> world" where
  "makeRequest m endpoint opts w =
     (let (r, w1) = fetchWithTimeout (requestOptions m endpoint opts w) w
      in (settle r, w1))"

definition refresh_call :: "string \<Rightarrow> world \<Rightarrow> fetch_call" where
  "refresh_call refreshToken w =
     \<lparr>fc_method = ''POST'', fc_path = fst (buildUrl ''/api/v1/auth/refresh'' None),
      fc_query = snd (buildUrl ''/api/v1/auth/refresh'' None),
      fc_headers = createHeaders None w, fc_body = Some (RefreshData refreshToken)\<rparr>"

text \<open>
  The \<^verbatim>\<open>try\<close> block of \<^verbatim>\<open>handleAuthError\<close>. The retry of the original request is its
  last statement, inside the block. Destructuring \<^verbatim>\<open>refreshData.data\<close> throws a
  TypeError when there is no data; from data of any shape the two properties are read and
  stored as they are, undefined included, and the retry runs.
\<close>

definition refresh_and_retry ::
  "(world \<Rightarrow> (error + parsed) \<times> world) \<Rightarrow> world \<Rightarrow> (error + parsed) \<times> world" where
  "refresh_and_retry originalRequest w =
     (let refreshToken = getItem ''refresh_token'' w in
      if \<not> truthy refreshToken then (Inl NoRefreshToken, w)
      else
        let (r, w1) = fetchWithTimeout (refresh_call (the refreshToken) w) w in
        case settle r of
          Inl e \<Rightarrow> (Inl e, w1)
        | Inr refreshData \<Rightarrow>
            if data_of refreshData = NoData then (Inl TypeErr, w1)
            else
              originalRequest
                (setItem ''refresh_token'' (js_string (field_refresh_token (data_of refreshData)))
                  (setItem ''access_token'' (js_string (field_access_token (data_of refreshData)))
                    w1)))"

definition handleAuthError ::
  "(world \<Rightarrow> (error + parsed) \<times> world) \<Rightarrow> string \<Rightarrow> world \<Rightarrow> (error + parsed) \<times> world" where
  "handleAuthError originalRequest url w =
     (if str_includes url ''/auth/login'' \<or> str_includes url ''/auth/refresh''
      then (Inl AuthFailed, w)
      else
        case refresh_and_retry originalRequest w of
          (Inr v, w1) \<Rightarrow> (Inr v, w1)
        | (Inl refreshError, w1) \<Rightarrow>
            (Inl refreshError,
             (removeItem ''refresh_token'' (removeItem ''access_token'' w1))
               \<lparr>href := Some ''/auth/login''\<rparr>))"

text \<open>
  The part of \<^verbatim>\<open>request\<close> that runs once its first \<^verbatim>\<open>fetch\<close> has settled: the
  result of \<^verbatim>\<open>handleResponse\<close>, or the \<^verbatim>\<open>catch\<close> block.
\<close>

definition request_settled ::
  "string \<Rightarrow> string \<Rightarrow> req_options \<Rightarrow> reply \<Rightarrow> world \<Rightarrow> (error + parsed) \<times> world" where
  "request_settled m endpoint opts r w =
     (case settle r of
        Inr v \<Rightarrow> (Inr v, w)
      | Inl e \<Rightarrow>
          if err_status e = Some 401
          then handleAuthError (makeRequest m endpoint opts) endpoint w
          else (Inl e, w))"

definition request ::
  "string \<Rightarrow> string \<Rightarrow> req_options \<Rightarrow> world \<Rightarrow> (error + parsed) \<times> world" where
  "request m endpoint opts w =
     (case makeRequest m endpoint opts w of
        (Inr v, w1) \<Rightarrow> (Inr v, w1)
      | (Inl e, w1) \<Rightarrow>
          if err_status e = Some 401
          then handleAuthError (makeRequest m endpoint opts) endpoint w1
          else (Inl e, w1))"

definition apiRequest_get ::
  "string \<Rightarrow> (string \<times> pvalue option) list option \<Rightarrow> world \<Rightarrow> (error + parsed) \<times> world" where
  "apiRequest_get url params = request ''GET'' url (no_options\<lparr>opt_params := params\<rparr>)"

definition apiRequest_post ::
  "string \<Rightarrow> req_data option \<Rightarrow> world \<Rightarrow> (error + parsed) \<times> world" where
  "apiRequest_post url d = request ''POST'' url (no_options\<lparr>opt_data := d\<rparr>)"

section \<open>Authentication service (services/auth.ts)\<close>

definition authService_login :: "LoginRequest \<Rightarrow> world \<Rightarrow> (error + parsed) \<times> world" where
  "authService_login d = apiRequest_post ''/api/v1/auth/login'' (Some (LoginData d))"

definition authService_register :: "RegisterRequest \<Rightarrow> world \<Rightarrow> (error + parsed) \<times> world" where
  "authService_register d = apiRequest_post ''/api/v1/auth/register'' (Some (RegisterData d))"

definition authService_logout :: "world \<Rightarrow> (error + parsed) \<times> world" where
  "authService_logout = apiRequest_post ''/api/v1/auth/logout'' None"

definition authService_createQRLogin :: "int \<Rightarrow> string \<Rightarrow> world \<Rightarrow> (error + parsed) \<times> world" where
  "authService_createQRLogin pool app =
     apiRequest_get ''/api/v1/auth/qr/create''
       (Some [(''user_pool_id'', Some (PNum pool)), (''app_id'', Some (PStr app))])"

definition status_url :: "string \<Rightarrow> string" where
  "status_url scene = ''/api/v1/auth/qr/'' @ scene @ ''/status''"

definition authService_getQRLoginStatus :: "string \<Rightarrow> world \<Rightarrow> (error + parsed) \<times> world" where
  "authService_getQRLoginStatus scene = apiRequest_get (status_url scene) None"

definition authService_getCurrentUser :: "world \<Rightarrow> (error + parsed) \<times> world" where
  "authService_getCurrentUser = apiRequest_get ''/api/v1/users/me'' None"

section \<open>Session store (frontend/src/stores/auth.ts)\<close>

record AuthState =
  user :: "UserResponse option"
  accessToken :: "string option"
  refreshToken :: "string option"
  isAuthenticated :: bool
  isLoading :: bool

definition initial_state :: AuthState where
  "initial_state =
     \<lparr>user = None, accessToken = None, refreshToken = None,
      isAuthenticated = False, isLoading = False\<rparr>"

text \<open>
  The tail of \<^verbatim>\<open>login\<close> and of \<^verbatim>\<open>register\<close> after the awaited call, the same
  statements in both. Destructuring \<^verbatim>\<open>response.data\<close> throws a TypeError into the
  \<^verbatim>\<open>catch\<close> block when there is no data; from data of any shape the three
  properties are read and stored as they are, undefined included, and the state is set
  authenticated.
\<close>

definition store_tokens ::
  "(error + parsed) \<times> world \<Rightarrow> AuthState \<Rightarrow> (error + unit) \<times> AuthState \<times> world" where
  "store_tokens res s =
     (case res of
        (Inl e, w1) \<Rightarrow> (Inl e, s\<lparr>isLoading := False\<rparr>, w1)
      | (Inr response, w1) \<Rightarrow>
          if data_of response = NoData then (Inl TypeErr, s\<lparr>isLoading := False\<rparr>, w1)
          else
            (Inr (),
             s\<lparr>user := field_user (data_of response),
               accessToken := field_access_token (data_of response),
               refreshToken := field_refresh_token (data_of response),
               isAuthenticated := True,
               isLoading := False\<rparr>,
             setItem ''refresh_token'' (js_string (field_refresh_token (data_of response)))
               (setItem ''access_token'' (js_string (field_access_token (data_of response))) w1)))"

definition login ::
  "string \<Rightarrow> string \<Rightarrow> int \<Rightarrow> AuthState \<times> world \<Rightarrow> (error + unit) \<times> AuthState \<times> world" where
  "login identifier password userPoolId sw =
     (case sw of (s, w) \<Rightarrow>
        store_tokens
          (authService_login
             \<lparr>lr_identifier = identifier, lr_password = password,
              lr_user_pool_id = userPoolId\<rparr> w)
          (s\<lparr>isLoading := True\<rparr>))"

record userData =
  ud_username :: string
  ud_password :: string
  ud_email :: "string option"
  ud_phone :: "string option"
  ud_nickname :: "string option"
  ud_userPoolId :: int

definition register ::
  "userData \<Rightarrow> AuthState \<times> world \<Rightarrow> (error + unit) \<times> AuthState \<times> world" where
  "register ud sw =
     (case sw of (s, w) \<Rightarrow>
        store_tokens
          (authService_register
             \<lparr>rr_username = ud_username ud, rr_password = ud_password ud,
              rr_email = ud_email ud, rr_phone = ud_phone ud,
              rr_nickname = ud_nickname ud, rr_user_pool_id = ud_userPoolId ud\<rparr> w)
          (s\<lparr>isLoading := True\<rparr>))"

definition signed_out :: "AuthState \<Rightarrow> AuthState" where
  "signed_out s =
     s\<lparr>user := None, accessToken := None, refreshToken := None,
       isAuthenticated := False, isLoading := False\<rparr>"

text \<open>
  \<^verbatim>\<open>logout\<close> does not await \<^verbatim>\<open>authService.logout()\<close>. The call runs up to its first
  \<^verbatim>\<open>await\<close>, so the request leaves with the headers of that moment; the
  \<^verbatim>\<open>finally\<close> block then clears the two keys and the state; the promise settles
  afterwards, on the cleared storage, and nobody looks at its result. An async function
  never throws to its caller, so the \<^verbatim>\<open>catch\<close> block of \<^verbatim>\<open>logout\<close> is never entered.
\<close>

definition logout :: "AuthState \<times> world \<Rightarrow> AuthState \<times> world" where
  "logout sw =
     (case sw of (s, w) \<Rightarrow>
        let (r, w1) = fetchWithTimeout (requestOptions ''POST'' ''/api/v1/auth/logout'' no_options w) w;
            w2 = removeItem ''refresh_token'' (removeItem ''access_token'' w1);
            (res, w3) = request_settled ''POST'' ''/api/v1/auth/logout'' no_options r w2
        in (signed_out s, w3))"

text \<open>
  The argument of \<^verbatim>\<open>setTokens\<close>. Its declared type has a user; the poller passes
  \<^verbatim>\<open>user!\<close>, an unchecked assertion on an optional field, so the value that arrives
  may be undefined.
\<close>

record tokens =
  tk_access_token :: string
  tk_refresh_token :: string
  tk_user :: "UserResponse option"

definition setTokens :: "tokens \<Rightarrow> AuthState \<times> world \<Rightarrow> AuthState \<times> world" where
  "setTokens tk sw =
     (case sw of (s, w) \<Rightarrow>
        (s\<lparr>user := tk_user tk,
           accessToken := Some (tk_access_token tk),
           refreshToken := Some (tk_refresh_token tk),
           isAuthenticated := True\<rparr>,
         setItem ''refresh_token'' (tk_refresh_token tk)
           (setItem ''access_token'' (tk_access_token tk) w)))"

definition clearAuth :: "AuthState \<times> world \<Rightarrow> AuthState \<times> world" where
  "clearAuth sw =
     (case sw of (s, w) \<Rightarrow>
        (signed_out s, removeItem ''refresh_token'' (removeItem ''access_token'' w)))"

text \<open>
  \<^verbatim>\<open>set({ user: response.data })\<close> stores whatever the envelope holds: the user of a
  well-typed response, nothing when the data is missing. Data of another shape is no
  identity, and the state keeps it as none.
\<close>

fun user_of :: "payload \<Rightarrow> UserResponse option" where
  "user_of (UserData u) = Some u"
| "user_of p = None"

definition refreshUserInfo :: "AuthState \<times> world \<Rightarrow> AuthState \<times> world" where
  "refreshUserInfo sw =
     (case sw of (s, w) \<Rightarrow>
        (case authService_getCurrentUser w of
           (Inr response, w1) \<Rightarrow> (s\<lparr>user := user_of (data_of response)\<rparr>, w1)
         | (Inl e, w1) \<Rightarrow> clearAuth (s, w1)))"

definition setLoading :: "bool \<Rightarrow> AuthState \<Rightarrow> AuthState" where
  "setLoading loading s = s\<lparr>isLoading := loading\<rparr>"

section \<open>Scan-to-login page (the poller)\<close>

text \<open>
  The displayed status: what \<^verbatim>\<open>setStatus\<close> was last given. Besides the five statuses
  of the server and the local \<^verbatim>\<open>loading\<close>, the unchecked \<^verbatim>\<open>status\<close> property of
  a body of another shape can put another string or undefined there.
\<close>

datatype QRStatus = Reported qr_status | loading | Unlisted string | Undefined

fun field_status :: "payload \<Rightarrow> QRStatus" where
  "field_status (QRStatusData q) = Reported (qr_state q)"
| "field_status (UserData u) =
     (case account_status u of
        awaiting \<Rightarrow> Reported pending
      | active \<Rightarrow> Unlisted ''active''
      | blocked \<Rightarrow> Unlisted ''blocked'')"
| "field_status d = Undefined"

text \<open>\<^verbatim>\<open>qrData\<close> holds the data it was given; \<open>NoData\<close> is null or undefined.\<close>

record poller =
  qrData :: payload
  status :: QRStatus
  isCreating :: bool
  intervalRef :: "nat option"

definition initial_poller :: poller where
  "initial_poller = \<lparr>qrData = NoData, status = loading, isCreating = False, intervalRef = None\<rparr>"

text \<open>
  \<^verbatim>\<open>setInterval\<close> hands out a fresh positive identifier; \<^verbatim>\<open>clearInterval\<close> removes
  the timer with that identifier, if there is one.
\<close>

definition setInterval :: "string \<Rightarrow> nat \<Rightarrow> world \<Rightarrow> nat \<times> world" where
  "setInterval scene period w =
     (let i = Suc (interval_seq w)
      in (i, w\<lparr>intervals := intervals w @ [(i, period, scene)], interval_seq := i\<rparr>))"

definition clearInterval :: "nat \<Rightarrow> world \<Rightarrow> world" where
  "clearInterval i w = w\<lparr>intervals := filter (\<lambda>t. fst t \<noteq> i) (intervals w)\<rparr>"

text \<open>Truthiness of \<^verbatim>\<open>intervalRef.current\<close>: not null and not zero.\<close>

fun ref_set :: "nat option \<Rightarrow> bool" where
  "ref_set None = False"
| "ref_set (Some i) = (i \<noteq> 0)"

definition stopPolling :: "poller \<times> world \<Rightarrow> poller \<times> world" where
  "stopPolling pw =
     (case pw of (p, w) \<Rightarrow>
        if ref_set (intervalRef p)
        then (p\<lparr>intervalRef := None\<rparr>, clearInterval (the (intervalRef p)) w)
        else (p, w))"

definition startPolling :: "string \<Rightarrow> poller \<times> world \<Rightarrow> poller \<times> world" where
  "startPolling sceneId pw =
     (case pw of (p, w) \<Rightarrow>
        let w1 = (if ref_set (intervalRef p) then clearInterval (the (intervalRef p)) w else w);
            (i, w2) = setInterval sceneId 2000 w1
        in (p\<lparr>intervalRef := Some i\<rparr>, w2))"

text \<open>The \<^verbatim>\<open>catch\<close> block of the interval callback.\<close>

definition poll_failed :: "poller \<times> AuthState \<times> world \<Rightarrow> poller \<times> AuthState \<times> world" where
  "poll_failed psw =
     (case psw of (p, s, w) \<Rightarrow>
        let (p1, w1) = stopPolling (p, w)
        in (p1\<lparr>status := Reported expired\<rparr>, s, w1))"

text \<open>
  The interval callback of \<^verbatim>\<open>startPolling\<close> is an async function, in two halves. It
  runs up to its \<^verbatim>\<open>await\<close>: the status query leaves. Whatever else happens in between
  (another tick, a teardown), it resumes when the query has settled, on the state of that
  moment: destructuring \<^verbatim>\<open>response.data\<close> throws into the \<^verbatim>\<open>catch\<close> block when
  there is no data, and otherwise the three properties are read from data of any shape
  (\<open>poll_received\<close>, the rest of the \<^verbatim>\<open>try\<close> block once the response is there).
\<close>

definition poll_begin :: "string \<Rightarrow> world \<Rightarrow> reply \<times> world" where
  "poll_begin sceneId w =
     fetchWithTimeout (requestOptions ''GET'' (status_url sceneId) no_options w) w"

definition poll_received ::
  "parsed \<Rightarrow> poller \<times> AuthState \<times> world \<Rightarrow> poller \<times> AuthState \<times> world" where
  "poll_received response psw =
     (case psw of (p, s, w1) \<Rightarrow>
        if data_of response = NoData then poll_failed (p, s, w1)
        else
          let qrStatus = field_status (data_of response);
              token = field_token (data_of response);
              p1 = p\<lparr>status := qrStatus\<rparr>
          in
            if qrStatus = Reported confirmed \<and> token \<noteq> None then
              let (s2, w2) =
                    setTokens
                      \<lparr>tk_access_token = access_token (the token),
                       tk_refresh_token = refresh_token (the token),
                       tk_user = field_user (data_of response)\<rparr> (s, w1);
                  (p2, w3) = stopPolling (p1, w2)
              in (p2, s2, w3\<lparr>route := Some ''/dashboard''\<rparr>)
            else if qrStatus = Reported expired \<or> qrStatus = Reported cancelled then
              let (p2, w2) = stopPolling (p1, w1) in (p2, s, w2)
            else (p1, s, w1))"

definition poll_resume ::
  "string \<Rightarrow> reply \<Rightarrow> poller \<times> AuthState \<times> world \<Rightarrow> poller \<times> AuthState \<times> world" where
  "poll_resume sceneId r psw =
     (case psw of (p, s, w) \<Rightarrow>
        (case request_settled ''GET'' (status_url sceneId) no_options r w of
           (Inl e, w1) \<Rightarrow> poll_failed (p, s, w1)
         | (Inr response, w1) \<Rightarrow> poll_received response (p, s, w1)))"

text \<open>The callback run to its end with nothing in between.\<close>

definition poll :: "string \<Rightarrow> poller \<times> AuthState \<times> world \<Rightarrow> poller \<times> AuthState \<times> world" where
  "poll sceneId psw =
     (case psw of (p, s, w) \<Rightarrow>
        let (r, w1) = poll_begin sceneId w in poll_resume sceneId r (p, s, w1))"

text \<open>The timer with identifier \<open>i\<close> fires: its callback runs if the timer is live.\<close>

definition fire :: "nat \<Rightarrow> poller \<times> AuthState \<times> world \<Rightarrow> poller \<times> AuthState \<times> world" where
  "fire i psw =
     (case psw of (p, s, w) \<Rightarrow>
        (case map_of (intervals w) i of
           None \<Rightarrow> (p, s, w)
         | Some (period, sceneId) \<Rightarrow> poll sceneId (p, s, w)))"

text \<open>
  \<^verbatim>\<open>createQR\<close> is an async function, in two halves. It runs up to its \<^verbatim>\<open>await\<close>:
  \<^verbatim>\<open>setIsCreating(true)\<close>, and the creation call leaves. It resumes when the call has
  settled, on the state of that moment. Without data, \<^verbatim>\<open>setQrData(undefined)\<close> and
  \<^verbatim>\<open>setStatus('pending')\<close> run, then \<^verbatim>\<open>response.data.scene_id\<close> throws and the
  \<^verbatim>\<open>catch\<close> block sets the status to expired; with data of any shape the scene
  identifier is read as it is, undefined included, and polling starts (\<open>created\<close>,
  the rest of the \<^verbatim>\<open>try\<close> block and the \<^verbatim>\<open>finally\<close> block once the response is
  there).
\<close>

definition create_options :: "int \<Rightarrow> string \<Rightarrow> req_options" where
  "create_options pool app =
     no_options\<lparr>opt_params := Some [(''user_pool_id'', Some (PNum pool)), (''app_id'', Some (PStr app))]\<rparr>"

definition createQR_begin :: "int \<Rightarrow> poller \<times> world \<Rightarrow> poller \<times> reply \<times> world" where
  "createQR_begin userPoolId pw =
     (case pw of (p, w) \<Rightarrow>
        (p\<lparr>isCreating := True\<rparr>,
         fetchWithTimeout
           (requestOptions ''GET'' ''/api/v1/auth/qr/create''
              (create_options userPoolId ''default-app'') w) w))"

definition created :: "parsed \<Rightarrow> poller \<times> world \<Rightarrow> poller \<times> world" where
  "created response pw =
     (case pw of (p, w1) \<Rightarrow>
        if data_of response = NoData
        then (p\<lparr>qrData := NoData, status := Reported expired, isCreating := False\<rparr>, w1)
        else
          let (p2, w2) =
                startPolling (js_string (field_scene_id (data_of response)))
                  (p\<lparr>qrData := data_of response, status := Reported pending\<rparr>, w1)
          in (p2\<lparr>isCreating := False\<rparr>, w2))"

definition createQR_resume :: "int \<Rightarrow> reply \<Rightarrow> poller \<times> world \<Rightarrow> poller \<times> world" where
  "createQR_resume userPoolId r pw =
     (case pw of (p, w) \<Rightarrow>
        (case request_settled ''GET'' ''/api/v1/auth/qr/create''
                (create_options userPoolId ''default-app'') r w of
           (Inl e, w1) \<Rightarrow> (p\<lparr>status := Reported expired, isCreating := False\<rparr>, w1)
         | (Inr response, w1) \<Rightarrow> created response (p, w1)))"

text \<open>\<^verbatim>\<open>createQR\<close> run to its end with nothing in between.\<close>

definition createQR :: "int \<Rightarrow> poller \<times> world \<Rightarrow> poller \<times> world" where
  "createQR userPoolId pw =
     (let (p1, r, w1) = createQR_begin userPoolId pw
      in createQR_resume userPoolId r (p1, w1))"

definition refreshQR :: "int \<Rightarrow> poller \<times> world \<Rightarrow> poller \<times> world" where
  "refreshQR userPoolId pw =
     (let (p1, w1) = stopPolling pw
      in createQR userPoolId (p1\<lparr>qrData := NoData, status := loading\<rparr>, w1))"

text \<open>
  The page is discarded while \<^verbatim>\<open>createQR\<close> is still awaiting: the effect of the mount
  has started it, the cleanup of the effect runs \<^verbatim>\<open>stopPolling\<close>, and the creation
  call settles afterwards.
\<close>

definition unmount_while_creating :: "int \<Rightarrow> poller \<times> world \<Rightarrow> poller \<times> world" where
  "unmount_while_creating userPoolId pw =
     (let (p1, r, w1) = createQR_begin userPoolId pw;
          (p2, w2) = stopPolling (p1, w1)
      in createQR_resume userPoolId r (p2, w2))"

section \<open>Properties and the operations they range over\<close>

text \<open>
  The invariant of the session state: an authenticated state has an identity and both
  tokens, and the two tokens are present together or absent together.
\<close>

definition session_inv :: "AuthState \<Rightarrow> bool" where
  "session_inv s =
     ((isAuthenticated s \<longrightarrow> user s \<noteq> None \<and> accessToken s \<noteq> None \<and> refreshToken s \<noteq> None) \<and>
      (accessToken s = None \<longleftrightarrow> refreshToken s = None))"

text \<open>The operations the store exposes, and one call of each on a state and a world.\<close>

datatype store_op =
    Login string string int
  | Register userData
  | Logout
  | SetTokens tokens
  | ClearAuth
  | RefreshUserInfo
  | SetLoading bool

fun run_op :: "store_op \<Rightarrow> AuthState \<times> world \<Rightarrow> AuthState \<times> world" where
  "run_op (Login i p pool) sw = snd (login i p pool sw)"
| "run_op (Register ud) sw = snd (register ud sw)"
| "run_op Logout sw = logout sw"
| "run_op (SetTokens tk) sw = setTokens tk sw"
| "run_op ClearAuth sw = clearAuth sw"
| "run_op RefreshUserInfo sw = refreshUserInfo sw"
| "run_op (SetLoading b) sw = (setLoading b (fst sw), snd sw)"

fun run_ops :: "store_op list \<Rightarrow> AuthState \<times> world \<Rightarrow> AuthState \<times> world" where
  "run_ops [] sw = sw"
| "run_ops (x # xs) sw = run_ops xs (run_op x sw)"

text \<open>
  What the operations store has its declared shape: the data of a successful sign-in or
  sign-up response is a token response (or is missing, and the call fails); the argument
  of \<^verbatim>\<open>setTokens\<close> has a user; in an authenticated state, the data of a successful
  identity response is a user.
\<close>

fun token_or_missing :: "payload \<Rightarrow> bool" where
  "token_or_missing (TokenData t) = True"
| "token_or_missing NoData = True"
| "token_or_missing d = False"

fun well_typed :: "store_op \<Rightarrow> AuthState \<times> world \<Rightarrow> bool" where
  "well_typed (Login i p pool) sw =
     (case authService_login
             \<lparr>lr_identifier = i, lr_password = p, lr_user_pool_id = pool\<rparr> (snd sw) of
        (Inr response, w1) \<Rightarrow> token_or_missing (data_of response)
      | (Inl e, w1) \<Rightarrow> True)"
| "well_typed (Register ud) sw =
     (case authService_register
             \<lparr>rr_username = ud_username ud, rr_password = ud_password ud,
              rr_email = ud_email ud, rr_phone = ud_phone ud,
              rr_nickname = ud_nickname ud, rr_user_pool_id = ud_userPoolId ud\<rparr> (snd sw) of
        (Inr response, w1) \<Rightarrow> token_or_missing (data_of response)
      | (Inl e, w1) \<Rightarrow> True)"
| "well_typed (SetTokens tk) sw = (tk_user tk \<noteq> None)"
| "well_typed RefreshUserInfo sw =
     (isAuthenticated (fst sw) \<longrightarrow>
        (case authService_getCurrentUser (snd sw) of
           (Inr response, w1) \<Rightarrow> user_of (data_of response) \<noteq> None
         | (Inl e, w1) \<Rightarrow> True))"
| "well_typed x sw = True"

fun all_well_typed :: "store_op list \<Rightarrow> AuthState \<times> world \<Rightarrow> bool" where
  "all_well_typed [] sw = True"
| "all_well_typed (x # xs) sw = (well_typed x sw \<and> all_well_typed xs (run_op x sw))"

text \<open>
  The page owns its timer: the only live interval timer, if any, is the one whose
  identifier \<^verbatim>\<open>intervalRef\<close> holds.
\<close>

fun ref_timers :: "nat option \<Rightarrow> nat list" where
  "ref_timers None = []"
| "ref_timers (Some i) = [i]"

definition timer_owned :: "poller \<Rightarrow> world \<Rightarrow> bool" where
  "timer_owned p w =
     (intervalRef p \<noteq> Some 0 \<and> map fst (intervals w) = ref_timers (intervalRef p))"

subsection \<open>Concrete inputs\<close>

definition alice :: UserResponse where
  "alice =
     \<lparr>id = 7, user_pool_id = 1, username = Some ''alice'', email = None, phone = None,
      nickname = None, avatar_url = None, email_verified = False, phone_verified = False,
      account_status = active, last_login_at = None, created_at = ''2024-01-01'',
      updated_at = ''2024-01-01''\<rparr>"

definition token_pair :: "string \<Rightarrow> string \<Rightarrow> TokenResponse" where
  "token_pair a r =
     \<lparr>access_token = a, refresh_token = r, token_type = ''bearer'', expires_in = 3600,
      token_user = alice\<rparr>"

definition ok_response :: "payload \<Rightarrow> reply" where
  "ok_response d =
     Responded \<lparr>http_status = 200, statusText = ''OK'',
       content = JsonBody \<lparr>code = 200, message = ''ok'', data = d, timestamp = ''t''\<rparr>\<rparr>"

definition failure_response :: "nat \<Rightarrow> string \<Rightarrow> reply" where
  "failure_response st msg =
     Responded \<lparr>http_status = st, statusText = ''Error'',
       content = JsonBody \<lparr>code = int st, message = msg, data = NoData, timestamp = ''t''\<rparr>\<rparr>"

definition browser :: "(string \<rightharpoonup> string) \<Rightarrow> reply list \<Rightarrow> world" where
  "browser store script =
     \<lparr>localStorage = store, replies = script, calls = [], href = None, route = None,
      intervals = [], interval_seq = 0\<rparr>"

definition signed_in_store :: "string \<rightharpoonup> string" where
  "signed_in_store = [''access_token'' \<mapsto> ''A0'', ''refresh_token'' \<mapsto> ''R0'']"

definition signed_in_state :: AuthState where
  "signed_in_state =
     \<lparr>user = Some alice, accessToken = Some ''A0'', refreshToken = Some ''R0'',
      isAuthenticated = True, isLoading = False\<rparr>"

definition polling_page :: poller where
  "polling_page =
     \<lparr>qrData = QRCreateData
        \<lparr>scene_id = ''S1'', qr_url = ''authing://qr/S1'', expires_at = ''2024-01-01''\<rparr>,
      status = Reported pending, isCreating = False, intervalRef = Some 1\<rparr>"

definition polling_world :: "reply list \<Rightarrow> world" where
  "polling_world script =
     (browser Map.empty script)\<lparr>intervals := [(1, 2000, ''S1'')], interval_seq := 1\<rparr>"

definition status_reply :: "qr_status \<Rightarrow> TokenResponse option \<Rightarrow> reply" where
  "status_reply st tok =
     ok_response (QRStatusData \<lparr>qr_state = st, qr_user = map_option token_user tok, qr_token = tok\<rparr>)"

definition creation_reply :: reply where
  "creation_reply =
     ok_response (QRCreateData
       \<lparr>scene_id = ''S1'', qr_url = ''authing://qr/S1'', expires_at = ''2024-01-01''\<rparr>)"

definition text_reply :: reply where
  "text_reply = Responded \<lparr>http_status = 200, statusText = ''OK'', content = TextBody ''ok''\<rparr>"

definition bob :: userData where
  "bob = \<lparr>ud_username = ''bob'', ud_password = ''pw'', ud_email = None, ud_phone = None,
          ud_nickname = None, ud_userPoolId = 1\<rparr>"

section \<open>The pipeline\<close>

lemmas example_defs = alice_def token_pair_def ok_response_def failure_response_def browser_def
  signed_in_store_def response_ok_def handleResponse_def getItem_def

lemmas pipeline_defs = apiRequest_get_def apiRequest_post_def request_def makeRequest_def
  fetchWithTimeout_def handleAuthError_def refresh_and_retry_def requestOptions_def
  refresh_call_def setItem_def removeItem_def no_options_def createHeaders_def buildUrl_def
  API_headers_def has_body_method_def

text \<open>\<^verbatim>\<open>request\<close> is its first \<^verbatim>\<open>fetch\<close> followed by the part that runs once it settles.\<close>

lemma request_unfold:
  "request m endpoint opts w =
     (let (r, w1) = fetchWithTimeout (requestOptions m endpoint opts w) w
      in request_settled m endpoint opts r w1)"
  by (simp add: request_def makeRequest_def request_settled_def split: prod.splits sum.splits)

text \<open>
  C1. Single-retry law. A request on a path that is neither the sign-in nor the refresh
  endpoint fails with status 401; the refresh call that follows succeeds with a token
  pair; the original request, issued again, fails with 401 again. Then the caller gets
  that second failure, and the calls made are exactly three: the original request, one
  call to the refresh endpoint, the original request again. No further reply is consumed.
\<close>

theorem single_retry:
  assumes "\<not> str_includes endpoint ''/auth/login''"
    and "\<not> str_includes endpoint ''/auth/refresh''"
    and "replies w = q1 # q2 # q3 # rest"
    and "settle q1 = Inl e1" and "err_status e1 = Some 401"
    and "truthy (getItem ''refresh_token'' w)"
    and "settle q2 = Inr d2" and "data_of d2 = TokenData t"
    and "settle q3 = Inl e3" and "err_status e3 = Some 401"
  shows "fst (request m endpoint opts w) = Inl e3 \<and>
         map fc_path (calls (snd (request m endpoint opts w))) =
           map fc_path (calls w) @ [endpoint, ''/api/v1/auth/refresh'', endpoint] \<and>
         replies (snd (request m endpoint opts w)) = rest"
  using assms
  by (simp add: request_def makeRequest_def fetchWithTimeout_def handleAuthError_def
      refresh_and_retry_def getItem_def setItem_def removeItem_def requestOptions_def
      refresh_call_def buildUrl_def Let_def)

theorem single_retry_witness:
  "fst (request ''GET'' ''/x'' no_options
      (browser signed_in_store
         [failure_response 401 ''expired'', ok_response (TokenData (token_pair ''A1'' ''R1'')),
          failure_response 401 ''still expired''])) =
     Inl (HttpError 401 (ServerMessage ''still expired'')
            (Json \<lparr>code = 401, message = ''still expired'', data = NoData, timestamp = ''t''\<rparr>)) \<and>
   map fc_path (calls (snd (request ''GET'' ''/x'' no_options
      (browser signed_in_store
         [failure_response 401 ''expired'', ok_response (TokenData (token_pair ''A1'' ''R1'')),
          failure_response 401 ''still expired''])))) =
     [''/x'', ''/api/v1/auth/refresh'', ''/x'']"
proof -
  let ?w = "browser signed_in_store
         [failure_response 401 ''expired'', ok_response (TokenData (token_pair ''A1'' ''R1'')),
          failure_response 401 ''still expired'']"
  have p1: "\<not> str_includes ''/x'' ''/auth/login''" and p2: "\<not> str_includes ''/x'' ''/auth/refresh''"
    by simp_all
  have script: "replies ?w = failure_response 401 ''expired'' #
      ok_response (TokenData (token_pair ''A1'' ''R1'')) # failure_response 401 ''still expired'' # []"
    by (simp add: browser_def)
  have e1: "settle (failure_response 401 ''expired'') =
      Inl (HttpError 401 (ServerMessage ''expired'')
            (Json \<lparr>code = 401, message = ''expired'', data = NoData, timestamp = ''t''\<rparr>))"
    by (simp add: example_defs)
  have d2: "settle (ok_response (TokenData (token_pair ''A1'' ''R1''))) =
      Inr (Json \<lparr>code = 200, message = ''ok'', data = TokenData (token_pair ''A1'' ''R1''),
                 timestamp = ''t''\<rparr>)"
    by (simp add: example_defs)
  have e3: "settle (failure_response 401 ''still expired'') =
      Inl (HttpError 401 (ServerMessage ''still expired'')
            (Json \<lparr>code = 401, message = ''still expired'', data = NoData, timestamp = ''t''\<rparr>))"
    by (simp add: example_defs)
  have tok: "truthy (getItem ''refresh_token'' ?w)"
    by (simp add: example_defs)
  show ?thesis
    using single_retry [OF p1 p2 script e1 _ tok d2 _ e3, of "token_pair ''A1'' ''R1''" "''GET''" no_options]
    by (simp add: browser_def)
qed

text \<open>
  C2. A request on a path that is neither the sign-in nor the refresh endpoint fails with
  status 401 while the store holds no refresh token. Then the caller gets the
  no-refresh-token failure at once, the only call made is the original request (none to
  the refresh endpoint), and both credential keys are gone from the store.
\<close>

theorem no_refresh_token:
  assumes "\<not> str_includes endpoint ''/auth/login''"
    and "\<not> str_includes endpoint ''/auth/refresh''"
    and "replies w = q # rest"
    and "settle q = Inl e" and "err_status e = Some 401"
    and "\<not> truthy (getItem ''refresh_token'' w)"
  shows "fst (request m endpoint opts w) = Inl NoRefreshToken \<and>
         calls (snd (request m endpoint opts w)) = calls w @ [requestOptions m endpoint opts w] \<and>
         localStorage (snd (request m endpoint opts w)) ''access_token'' = None \<and>
         localStorage (snd (request m endpoint opts w)) ''refresh_token'' = None"
  using assms
  by (simp add: request_def makeRequest_def fetchWithTimeout_def handleAuthError_def
      refresh_and_retry_def getItem_def setItem_def removeItem_def Let_def)

theorem no_refresh_token_witness:
  "fst (request ''GET'' ''/x'' no_options
      (browser [''access_token'' \<mapsto> ''A0''] [failure_response 401 ''expired''])) =
     Inl NoRefreshToken \<and>
   map fc_path (calls (snd (request ''GET'' ''/x'' no_options
      (browser [''access_token'' \<mapsto> ''A0''] [failure_response 401 ''expired''])))) = [''/x''] \<and>
   localStorage (snd (request ''GET'' ''/x'' no_options
      (browser [''access_token'' \<mapsto> ''A0''] [failure_response 401 ''expired'']))) ''access_token'' =
     None"
proof -
  let ?w = "browser [''access_token'' \<mapsto> ''A0''] [failure_response 401 ''expired'']"
  have p1: "\<not> str_includes ''/x'' ''/auth/login''" and p2: "\<not> str_includes ''/x'' ''/auth/refresh''"
    by simp_all
  have script: "replies ?w = failure_response 401 ''expired'' # []"
    by (simp add: browser_def)
  have e: "settle (failure_response 401 ''expired'') =
      Inl (HttpError 401 (ServerMessage ''expired'')
            (Json \<lparr>code = 401, message = ''expired'', data = NoData, timestamp = ''t''\<rparr>))"
    by (simp add: example_defs)
  have tok: "\<not> truthy (getItem ''refresh_token'' ?w)"
    by (simp add: example_defs)
  show ?thesis
    using no_refresh_token [OF p1 p2 script e _ tok, of "''GET''" no_options]
    by (simp add: browser_def requestOptions_def buildUrl_def)
qed

text \<open>
  C3, as the code has it. A request whose path contains the sign-in or the refresh path
  fails with status 401. Then no recovery runs: the only call made is the request itself,
  the store and the location are untouched, and the caller gets the fixed
  authentication-failed error, which has no status and no response body.
\<close>

theorem auth_path_401:
  assumes "str_includes endpoint ''/auth/login'' \<or> str_includes endpoint ''/auth/refresh''"
    and "replies w = q # rest"
    and "settle q = Inl e" and "err_status e = Some 401"
  shows "request m endpoint opts w =
           (Inl AuthFailed,
            w\<lparr>calls := calls w @ [requestOptions m endpoint opts w], replies := rest\<rparr>) \<and>
         err_status AuthFailed = None \<and> err_response_data AuthFailed = None"
  using assms
  by (simp add: request_def makeRequest_def fetchWithTimeout_def handleAuthError_def)

theorem auth_path_401_witness:
  "fst (request ''POST'' ''/api/v1/auth/refresh'' no_options
      (browser signed_in_store [failure_response 401 ''Invalid refresh token''])) = Inl AuthFailed \<and>
   map fc_path (calls (snd (request ''POST'' ''/api/v1/auth/refresh'' no_options
      (browser signed_in_store [failure_response 401 ''Invalid refresh token''])))) =
     [''/api/v1/auth/refresh''] \<and>
   localStorage (snd (request ''POST'' ''/api/v1/auth/refresh'' no_options
      (browser signed_in_store [failure_response 401 ''Invalid refresh token'']))) ''refresh_token'' =
     Some ''R0''"
proof -
  let ?w = "browser signed_in_store [failure_response 401 ''Invalid refresh token'']"
  have p: "str_includes ''/api/v1/auth/refresh'' ''/auth/login'' \<or>
           str_includes ''/api/v1/auth/refresh'' ''/auth/refresh''"
    by simp
  have script: "replies ?w = failure_response 401 ''Invalid refresh token'' # []"
    by (simp add: browser_def)
  have e: "settle (failure_response 401 ''Invalid refresh token'') =
      Inl (HttpError 401 (ServerMessage ''Invalid refresh token'')
            (Json \<lparr>code = 401, message = ''Invalid refresh token'', data = NoData,
                   timestamp = ''t''\<rparr>))"
    by (simp add: example_defs)
  show ?thesis
    using auth_path_401 [OF p script e, of "''POST''" no_options]
    by (simp add: browser_def requestOptions_def buildUrl_def signed_in_store_def)
qed

text \<open>
  The sign-in call with a wrong password: the server answers 401 with its message; what
  reaches the caller is not that failure but the fixed error, without status or body.
\<close>

theorem auth_path_401_counterexample:
  "settle (failure_response 401 ''Invalid credentials'') =
     Inl (HttpError 401 (ServerMessage ''Invalid credentials'')
            (Json \<lparr>code = 401, message = ''Invalid credentials'', data = NoData,
                   timestamp = ''t''\<rparr>)) \<and>
   fst (authService_login
          \<lparr>lr_identifier = ''alice'', lr_password = ''wrong'', lr_user_pool_id = 1\<rparr>
          (browser Map.empty [failure_response 401 ''Invalid credentials''])) = Inl AuthFailed \<and>
   fst (authService_login
          \<lparr>lr_identifier = ''alice'', lr_password = ''wrong'', lr_user_pool_id = 1\<rparr>
          (browser Map.empty [failure_response 401 ''Invalid credentials''])) \<noteq>
     settle (failure_response 401 ''Invalid credentials'') \<and>
   err_status AuthFailed \<noteq> Some 401 \<and>
   err_response_data AuthFailed = None"
  by (simp add: example_defs authService_login_def apiRequest_post_def request_def
      makeRequest_def fetchWithTimeout_def handleAuthError_def)

section \<open>The session store\<close>

lemma logout_path:
  "\<not> str_includes ''/api/v1/auth/logout'' ''/auth/login''"
  "\<not> str_includes ''/api/v1/auth/logout'' ''/auth/refresh''"
  by simp_all

text \<open>What \<^verbatim>\<open>logout\<close> starts and leaves behind is the call \<^verbatim>\<open>authService.logout()\<close>.\<close>

lemma authService_logout_unfold:
  "authService_logout w =
     (let (r, w1) = fetchWithTimeout (requestOptions ''POST'' ''/api/v1/auth/logout'' no_options w) w
      in request_settled ''POST'' ''/api/v1/auth/logout'' no_options r w1)"
  by (simp add: authService_logout_def apiRequest_post_def request_unfold no_options_def)

text \<open>On a store without the two keys, a settling request leaves them absent.\<close>

lemma settled_keeps_cleared:
  assumes "localStorage w ''access_token'' = None" and "localStorage w ''refresh_token'' = None"
    and "\<not> str_includes endpoint ''/auth/login''" and "\<not> str_includes endpoint ''/auth/refresh''"
  shows "localStorage (snd (request_settled m endpoint opts r w)) ''access_token'' = None \<and>
         localStorage (snd (request_settled m endpoint opts r w)) ''refresh_token'' = None"
  using assms
  by (simp add: request_settled_def handleAuthError_def refresh_and_retry_def getItem_def
      removeItem_def split: sum.splits)

text \<open>
  C4. Whatever the network does with the logout call (any reply, or none), \<^verbatim>\<open>logout\<close>
  ends with both credential keys removed from the store and the state anonymous: no
  user, no tokens, not authenticated, not loading.
\<close>

theorem logout_always_clears:
  "localStorage (snd (logout (s, w))) ''access_token'' = None \<and>
   localStorage (snd (logout (s, w))) ''refresh_token'' = None \<and>
   fst (logout (s, w)) = initial_state"
proof -
  obtain r w1 where f:
    "fetchWithTimeout (requestOptions ''POST'' ''/api/v1/auth/logout'' no_options w) w = (r, w1)"
    by (cases "fetchWithTimeout (requestOptions ''POST'' ''/api/v1/auth/logout'' no_options w) w")
  let ?w2 = "removeItem ''refresh_token'' (removeItem ''access_token'' w1)"
  have c: "localStorage ?w2 ''access_token'' = None" "localStorage ?w2 ''refresh_token'' = None"
    by (simp_all add: removeItem_def)
  have l: "logout (s, w) =
      (signed_out s, snd (request_settled ''POST'' ''/api/v1/auth/logout'' no_options r ?w2))"
    by (simp add: logout_def f Let_def split: prod.splits)
  show ?thesis
    using settled_keeps_cleared [OF c logout_path, of "''POST''" no_options r]
    by (simp add: l signed_out_def initial_state_def)
qed

theorem logout_always_clears_witness:
  "localStorage (snd (logout (signed_in_state, browser signed_in_store [Rejected]))) ''access_token'' = None \<and>
   localStorage (snd (logout (signed_in_state, browser signed_in_store [Rejected]))) ''refresh_token'' = None \<and>
   fst (logout (signed_in_state, browser signed_in_store [Rejected])) = initial_state \<and>
   localStorage (snd (logout (signed_in_state,
      browser signed_in_store [failure_response 401 ''expired'']))) ''refresh_token'' = None \<and>
   fst (logout (signed_in_state, browser signed_in_store [ok_response (BoolData True)])) = initial_state"
  using logout_always_clears [of signed_in_state "browser signed_in_store [Rejected]"]
    logout_always_clears [of signed_in_state "browser signed_in_store [failure_response 401 ''expired'']"]
    logout_always_clears [of signed_in_state "browser signed_in_store [ok_response (BoolData True)]"]
  by simp

text \<open>
  C5. \<^verbatim>\<open>setTokens\<close> with a credential pair and an identity leaves the state
  authenticated with that identity and pair, the pair also in the store. If the identity
  fetch of a following \<^verbatim>\<open>refreshUserInfo\<close> fails, the state is no longer
  authenticated, and identity, both tokens and both stored keys are gone.
\<close>

theorem adopt_then_failed_refresh:
  assumes "authService_getCurrentUser
             (snd (setTokens \<lparr>tk_access_token = a, tk_refresh_token = r, tk_user = Some u\<rparr> (s, w))) =
           (Inl e, w')"
  shows "(let (s1, w1) = setTokens \<lparr>tk_access_token = a, tk_refresh_token = r, tk_user = Some u\<rparr> (s, w);
              (s2, w2) = refreshUserInfo (s1, w1)
          in isAuthenticated s1 \<and> user s1 = Some u \<and>
             accessToken s1 = Some a \<and> refreshToken s1 = Some r \<and>
             localStorage w1 ''access_token'' = Some a \<and> localStorage w1 ''refresh_token'' = Some r \<and>
             \<not> isAuthenticated s2 \<and> user s2 = None \<and>
             accessToken s2 = None \<and> refreshToken s2 = None \<and>
             localStorage w2 ''access_token'' = None \<and> localStorage w2 ''refresh_token'' = None)"
  using assms
  by (simp add: setTokens_def refreshUserInfo_def clearAuth_def signed_out_def setItem_def
      removeItem_def)

theorem adopt_then_failed_refresh_witness:
  "isAuthenticated (fst (setTokens \<lparr>tk_access_token = ''A2'', tk_refresh_token = ''R2'', tk_user = Some alice\<rparr>
      (initial_state, browser Map.empty [failure_response 500 ''boom'']))) \<and>
   \<not> isAuthenticated (fst (refreshUserInfo
      (setTokens \<lparr>tk_access_token = ''A2'', tk_refresh_token = ''R2'', tk_user = Some alice\<rparr>
        (initial_state, browser Map.empty [failure_response 500 ''boom''])))) \<and>
   localStorage (snd (refreshUserInfo
      (setTokens \<lparr>tk_access_token = ''A2'', tk_refresh_token = ''R2'', tk_user = Some alice\<rparr>
        (initial_state, browser Map.empty [failure_response 500 ''boom''])))) ''access_token'' = None"
proof -
  let ?tk = "\<lparr>tk_access_token = ''A2'', tk_refresh_token = ''R2'', tk_user = Some alice\<rparr>"
  let ?w = "browser Map.empty [failure_response 500 ''boom'']"
  let ?e = "HttpError 500 (ServerMessage ''boom'')
              (Json \<lparr>code = 500, message = ''boom'', data = NoData, timestamp = ''t''\<rparr>)"
  have h: "authService_getCurrentUser (snd (setTokens ?tk (initial_state, ?w))) =
           (Inl ?e, snd (authService_getCurrentUser (snd (setTokens ?tk (initial_state, ?w)))))"
    by (simp add: prod_eq_iff authService_getCurrentUser_def setTokens_def pipeline_defs
        example_defs)
  show ?thesis
    using adopt_then_failed_refresh [OF h]
    by (simp add: case_prod_beta Let_def)
qed

text \<open>The shared tail of \<^verbatim>\<open>login\<close> and \<^verbatim>\<open>register\<close> on its failure paths.\<close>

lemma store_tokens_failure:
  "store_tokens res s = (Inl e, s', w') \<Longrightarrow> s' = s\<lparr>isLoading := False\<rparr>"
  by (auto simp: store_tokens_def split: prod.splits sum.splits if_splits)

lemma store_tokens_rethrow:
  "store_tokens (Inl e, w1) s = (Inl e, s\<lparr>isLoading := False\<rparr>, w1)"
  by (simp add: store_tokens_def)

text \<open>
  C9. When \<^verbatim>\<open>login\<close> or \<^verbatim>\<open>register\<close> fails, the state it leaves is the state before
  the call with the loading flag cleared: user, both tokens and the authenticated flag
  keep their values. The failure of the service call is the failure the caller gets.
\<close>

theorem failed_sign_in_frame:
  "(login identifier password pool (s, w) = (Inl e, s', w') \<longrightarrow>
      s' = s\<lparr>isLoading := False\<rparr> \<and> user s' = user s \<and> accessToken s' = accessToken s \<and>
      refreshToken s' = refreshToken s \<and> isAuthenticated s' = isAuthenticated s \<and> \<not> isLoading s') \<and>
   (register ud (s, w) = (Inl e, s', w') \<longrightarrow>
      s' = s\<lparr>isLoading := False\<rparr> \<and> user s' = user s \<and> accessToken s' = accessToken s \<and>
      refreshToken s' = refreshToken s \<and> isAuthenticated s' = isAuthenticated s \<and> \<not> isLoading s') \<and>
   (authService_login \<lparr>lr_identifier = identifier, lr_password = password, lr_user_pool_id = pool\<rparr> w =
      (Inl e, w') \<longrightarrow>
      login identifier password pool (s, w) = (Inl e, s\<lparr>isLoading := False\<rparr>, w')) \<and>
   (authService_register
      \<lparr>rr_username = ud_username ud, rr_password = ud_password ud, rr_email = ud_email ud,
       rr_phone = ud_phone ud, rr_nickname = ud_nickname ud, rr_user_pool_id = ud_userPoolId ud\<rparr> w =
      (Inl e, w') \<longrightarrow>
      register ud (s, w) = (Inl e, s\<lparr>isLoading := False\<rparr>, w'))"
  by (auto simp: login_def register_def store_tokens_rethrow dest: store_tokens_failure)

theorem failed_sign_in_frame_witness:
  "fst (login ''alice'' ''wrong'' 1 (signed_in_state\<lparr>isLoading := True\<rparr>,
      browser signed_in_store [failure_response 401 ''Invalid credentials''])) = Inl AuthFailed \<and>
   fst (snd (login ''alice'' ''wrong'' 1 (signed_in_state\<lparr>isLoading := True\<rparr>,
      browser signed_in_store [failure_response 401 ''Invalid credentials'']))) = signed_in_state \<and>
   fst (register bob (initial_state, browser Map.empty [failure_response 409 ''taken''])) =
     Inl (HttpError 409 (ServerMessage ''taken'')
            (Json \<lparr>code = 409, message = ''taken'', data = NoData, timestamp = ''t''\<rparr>)) \<and>
   fst (snd (register bob (initial_state, browser Map.empty [failure_response 409 ''taken'']))) =
     initial_state"
proof -
  let ?s = "signed_in_state\<lparr>isLoading := True\<rparr>"
  let ?w = "browser signed_in_store [failure_response 401 ''Invalid credentials'']"
  let ?v = "browser Map.empty [failure_response 409 ''taken'']"
  let ?e = "HttpError 409 (ServerMessage ''taken'')
            (Json \<lparr>code = 409, message = ''taken'', data = NoData, timestamp = ''t''\<rparr>)"
  have l: "fst (login ''alice'' ''wrong'' 1 (?s, ?w)) = Inl AuthFailed"
    by (simp add: login_def store_tokens_def authService_login_def pipeline_defs example_defs)
  have r: "fst (register bob (initial_state, ?v)) = Inl ?e"
    by (simp add: register_def store_tokens_def authService_register_def pipeline_defs example_defs)
  have hl: "login ''alice'' ''wrong'' 1 (?s, ?w) =
      (Inl AuthFailed, fst (snd (login ''alice'' ''wrong'' 1 (?s, ?w))),
       snd (snd (login ''alice'' ''wrong'' 1 (?s, ?w))))"
    using l by (simp only: prod_eq_iff fst_conv snd_conv simp_thms)
  have hr: "register bob (initial_state, ?v) =
      (Inl ?e, fst (snd (register bob (initial_state, ?v))),
       snd (snd (register bob (initial_state, ?v))))"
    using r by (simp only: prod_eq_iff fst_conv snd_conv simp_thms)
  have fl: "fst (snd (login ''alice'' ''wrong'' 1 (?s, ?w))) = ?s\<lparr>isLoading := False\<rparr>"
    using failed_sign_in_frame [THEN conjunct1, rule_format, OF hl] by (rule conjunct1)
  have fr: "fst (snd (register bob (initial_state, ?v))) = initial_state\<lparr>isLoading := False\<rparr>"
    using failed_sign_in_frame [THEN conjunct2, THEN conjunct1, rule_format, OF hr] by (rule conjunct1)
  have s1: "?s\<lparr>isLoading := False\<rparr> = signed_in_state"
    by (simp add: signed_in_state_def)
  have s2: "initial_state\<lparr>isLoading := False\<rparr> = initial_state"
    by (simp add: initial_state_def)
  show ?thesis
    using l r fl fr s1 s2 by (simp only: simp_thms)
qed

text \<open>Each store operation keeps the invariant when what it stores has its declared shape;
  so does any sequence of them.\<close>

lemma store_tokens_inv:
  assumes "session_inv s"
    and "case res of (Inr response, w1) \<Rightarrow> token_or_missing (data_of response)
                   | (Inl e, w1) \<Rightarrow> True"
  shows "session_inv (fst (snd (store_tokens res (s\<lparr>isLoading := True\<rparr>))))"
proof (cases res)
  case (Pair r w1)
  show ?thesis
  proof (cases r)
    case (Inl e)
    then show ?thesis using assms(1) Pair by (simp add: store_tokens_def session_inv_def)
  next
    case (Inr response)
    have "token_or_missing (data_of response)"
      using assms(2) Pair Inr by simp
    then show ?thesis
      using assms(1) Pair Inr
      by (cases "data_of response") (simp_all add: store_tokens_def session_inv_def)
  qed
qed

lemma run_op_inv:
  assumes "session_inv s" and "well_typed x (s, w)"
  shows "session_inv (fst (run_op x (s, w)))"
proof (cases x)
  case (Login i p pool)
  then show ?thesis
    using assms store_tokens_inv [of s "authService_login
        \<lparr>lr_identifier = i, lr_password = p, lr_user_pool_id = pool\<rparr> w"]
    by (simp add: login_def)
next
  case (Register ud)
  then show ?thesis
    using assms store_tokens_inv [of s "authService_register
        \<lparr>rr_username = ud_username ud, rr_password = ud_password ud,
         rr_email = ud_email ud, rr_phone = ud_phone ud,
         rr_nickname = ud_nickname ud, rr_user_pool_id = ud_userPoolId ud\<rparr> w"]
    by (simp add: register_def)
next
  case Logout
  then show ?thesis by (simp add: logout_def session_inv_def signed_out_def split: prod.splits)
next
  case (SetTokens tk)
  then show ?thesis using assms by (simp add: setTokens_def session_inv_def)
next
  case ClearAuth
  then show ?thesis by (simp add: clearAuth_def session_inv_def signed_out_def)
next
  case RefreshUserInfo
  then show ?thesis using assms
    by (auto simp: refreshUserInfo_def clearAuth_def session_inv_def signed_out_def
        split: prod.splits sum.splits)
next
  case (SetLoading b)
  then show ?thesis using assms by (simp add: setLoading_def session_inv_def)
qed

lemma run_ops_inv:
  "session_inv (fst sw) \<Longrightarrow> all_well_typed xs sw \<Longrightarrow> session_inv (fst (run_ops xs sw))"
proof (induction xs arbitrary: sw)
  case Nil
  then show ?case by simp
next
  case (Cons x xs)
  obtain s w where sw: "sw = (s, w)" by (cases sw)
  have "session_inv (fst (run_op x sw))"
    using Cons.prems run_op_inv [of s x w] by (simp add: sw)
  then show ?case using Cons.IH [of "run_op x sw"] Cons.prems by simp
qed

lemma session_inv_initial: "session_inv initial_state"
  by (simp add: session_inv_def initial_state_def)

text \<open>
  C8, as the code has it. The invariant of the session state (authenticated implies user
  and both tokens present; the two tokens present together or absent together) holds in
  the initial state. logout, clearAuth and setLoading keep it on every input; login,
  register, setTokens and refreshUserInfo keep it whenever what they store has its
  declared shape; so it holds after any sequence of such calls from the initial state.
\<close>

theorem session_inv_preserved:
  "session_inv initial_state \<and>
   (session_inv s \<and> well_typed x (s, w) \<longrightarrow> session_inv (fst (run_op x (s, w)))) \<and>
   (all_well_typed xs (initial_state, w) \<longrightarrow> session_inv (fst (run_ops xs (initial_state, w))))"
  using run_op_inv [of s x w] run_ops_inv [of "(initial_state, w)" xs] session_inv_initial
  by simp

theorem session_inv_preserved_witness:
  "session_inv signed_in_state \<and>
   isAuthenticated (fst (run_op (SetTokens \<lparr>tk_access_token = ''A2'', tk_refresh_token = ''R2'',
       tk_user = Some alice\<rparr>) (initial_state, browser Map.empty []))) \<and>
   session_inv (fst (run_op (SetTokens \<lparr>tk_access_token = ''A2'', tk_refresh_token = ''R2'',
       tk_user = Some alice\<rparr>) (initial_state, browser Map.empty []))) \<and>
   session_inv (fst (run_op RefreshUserInfo
       (signed_in_state, browser signed_in_store [ok_response (UserData alice)]))) \<and>
   isAuthenticated (fst (run_op RefreshUserInfo
       (signed_in_state, browser signed_in_store [ok_response (UserData alice)]))) \<and>
   session_inv (fst (run_op (Login ''alice'' ''secret1'' 1)
       (initial_state, browser Map.empty [ok_response (TokenData (token_pair ''A1'' ''R1''))]))) \<and>
   isAuthenticated (fst (run_op (Login ''alice'' ''secret1'' 1)
       (initial_state, browser Map.empty [ok_response (TokenData (token_pair ''A1'' ''R1''))])))"
proof -
  let ?tk = "\<lparr>tk_access_token = ''A2'', tk_refresh_token = ''R2'', tk_user = Some alice\<rparr>"
  let ?w = "browser signed_in_store [ok_response (UserData alice)]"
  let ?v = "browser Map.empty [ok_response (TokenData (token_pair ''A1'' ''R1''))]"
  let ?cred = "\<lparr>lr_identifier = ''alice'', lr_password = ''secret1'', lr_user_pool_id = 1\<rparr>"
  have i0: "session_inv initial_state"
    by (simp add: session_inv_def initial_state_def)
  have i1: "session_inv signed_in_state"
    by (simp add: session_inv_def signed_in_state_def)
  have t1: "well_typed (SetTokens ?tk) (initial_state, browser Map.empty [])"
    by simp
  have g: "fst (authService_getCurrentUser ?w) =
      Inr (Json \<lparr>code = 200, message = ''ok'', data = UserData alice, timestamp = ''t''\<rparr>)"
    by (simp add: authService_getCurrentUser_def pipeline_defs example_defs)
  have t2: "well_typed RefreshUserInfo (signed_in_state, ?w)"
    using g by (cases "authService_getCurrentUser ?w") simp
  have h: "fst (authService_login ?cred ?v) =
      Inr (Json \<lparr>code = 200, message = ''ok'', data = TokenData (token_pair ''A1'' ''R1''),
                 timestamp = ''t''\<rparr>)"
    by (simp add: authService_login_def pipeline_defs example_defs)
  have t3: "well_typed (Login ''alice'' ''secret1'' 1) (initial_state, ?v)"
    using h by (cases "authService_login ?cred ?v") simp
  have a1: "session_inv (fst (run_op (SetTokens ?tk) (initial_state, browser Map.empty [])))"
    using session_inv_preserved [THEN conjunct2, THEN conjunct1, rule_format, OF conjI, OF i0 t1] .
  have a2: "session_inv (fst (run_op RefreshUserInfo (signed_in_state, ?w)))"
    using session_inv_preserved [THEN conjunct2, THEN conjunct1, rule_format, OF conjI, OF i1 t2] .
  have a3: "session_inv (fst (run_op (Login ''alice'' ''secret1'' 1) (initial_state, ?v)))"
    using session_inv_preserved [THEN conjunct2, THEN conjunct1, rule_format, OF conjI, OF i0 t3] .
  have b1: "isAuthenticated (fst (run_op (SetTokens ?tk) (initial_state, browser Map.empty [])))"
    by (simp add: setTokens_def)
  have b2: "isAuthenticated (fst (run_op RefreshUserInfo (signed_in_state, ?w)))"
    using g by (cases "authService_getCurrentUser ?w") (simp add: refreshUserInfo_def signed_in_state_def)
  have b3: "isAuthenticated (fst (run_op (Login ''alice'' ''secret1'' 1) (initial_state, ?v)))"
    using h by (cases "authService_login ?cred ?v") (simp add: login_def store_tokens_def)
  show ?thesis
    using i1 a1 a2 a3 b1 b2 b3 by (simp only: simp_thms)
qed

text \<open>
  Inputs on which an operation leaves the invariant: an identity response with status 200
  and a body that is not JSON, in an authenticated state; a sign-in response with status
  200 whose data is not a token response; and the poller's call of \<^verbatim>\<open>setTokens\<close>
  on a status response that is confirmed with a token and, as its type allows, no user.
\<close>

theorem session_inv_preserved_counterexample:
  "session_inv signed_in_state \<and>
   \<not> session_inv (fst (run_op RefreshUserInfo (signed_in_state, browser signed_in_store [text_reply]))) \<and>
   session_inv initial_state \<and>
   \<not> session_inv (fst (run_op (Login ''alice'' ''secret1'' 1)
        (initial_state, browser Map.empty [ok_response (BoolData True)]))) \<and>
   \<not> session_inv (fst (run_op (SetTokens \<lparr>tk_access_token = ''A2'', tk_refresh_token = ''R2'',
        tk_user = None\<rparr>) (initial_state, browser Map.empty []))) \<and>
   \<not> session_inv (fst (snd (fire 1 (polling_page, initial_state,
        polling_world [ok_response (QRStatusData
          \<lparr>qr_state = confirmed, qr_user = None, qr_token = Some (token_pair ''A2'' ''R2'')\<rparr>)]))))"
proof -
  have a: "fst (run_op RefreshUserInfo (signed_in_state, browser signed_in_store [text_reply])) =
      signed_in_state\<lparr>user := None\<rparr>"
    by (simp add: refreshUserInfo_def authService_getCurrentUser_def pipeline_defs example_defs
        text_reply_def)
  have b: "fst (run_op (Login ''alice'' ''secret1'' 1)
        (initial_state, browser Map.empty [ok_response (BoolData True)])) =
      initial_state\<lparr>isAuthenticated := True\<rparr>"
    by (simp add: login_def store_tokens_def authService_login_def pipeline_defs example_defs
        initial_state_def)
  have c: "fst (snd (fire 1 (polling_page, initial_state,
        polling_world [ok_response (QRStatusData
          \<lparr>qr_state = confirmed, qr_user = None, qr_token = Some (token_pair ''A2'' ''R2'')\<rparr>)]))) =
      initial_state\<lparr>accessToken := Some ''A2'', refreshToken := Some ''R2'', isAuthenticated := True\<rparr>"
    by (simp add: fire_def poll_def poll_begin_def poll_resume_def poll_received_def request_settled_def
        polling_page_def polling_world_def status_url_def pipeline_defs example_defs setTokens_def
        stopPolling_def clearInterval_def initial_state_def)
  show ?thesis
    unfolding a b c
    by (simp add: session_inv_def signed_in_state_def initial_state_def setTokens_def)
qed

section \<open>The poller\<close>

text \<open>A request touches neither the timers nor the route, and adds its calls at the end of the log,
  its own first.\<close>

lemma fetch_frame:
  "intervals (snd (fetchWithTimeout c w)) = intervals w \<and>
   interval_seq (snd (fetchWithTimeout c w)) = interval_seq w \<and>
   route (snd (fetchWithTimeout c w)) = route w"
  by (simp add: fetchWithTimeout_def split: list.splits)

lemma fetch_calls: "calls (snd (fetchWithTimeout c w)) = calls w @ [c]"
  by (simp add: fetchWithTimeout_def split: list.splits)

lemma makeRequest_frame:
  "intervals (snd (makeRequest m ep opts w)) = intervals w \<and>
   interval_seq (snd (makeRequest m ep opts w)) = interval_seq w \<and>
   route (snd (makeRequest m ep opts w)) = route w"
  using fetch_frame [of "requestOptions m ep opts w" w]
  by (auto simp: makeRequest_def split: prod.splits)

lemma makeRequest_calls:
  "calls (snd (makeRequest m ep opts w)) = calls w @ [requestOptions m ep opts w]"
  using fetch_calls [of "requestOptions m ep opts w" w]
  by (auto simp: makeRequest_def split: prod.splits)

lemma refresh_and_retry_frame:
  "intervals (snd (refresh_and_retry (makeRequest m ep opts) w)) = intervals w \<and>
   interval_seq (snd (refresh_and_retry (makeRequest m ep opts) w)) = interval_seq w \<and>
   route (snd (refresh_and_retry (makeRequest m ep opts) w)) = route w"
proof -
  obtain r w1 where f: "fetchWithTimeout (refresh_call (the (getItem ''refresh_token'' w)) w) w = (r, w1)"
    by (cases "fetchWithTimeout (refresh_call (the (getItem ''refresh_token'' w)) w) w")
  have w1: "intervals w1 = intervals w \<and> interval_seq w1 = interval_seq w \<and> route w1 = route w"
    using fetch_frame [of "refresh_call (the (getItem ''refresh_token'' w)) w" w] by (simp add: f)
  show ?thesis
    using w1 makeRequest_frame
    by (auto simp: refresh_and_retry_def f setItem_def Let_def split: sum.splits if_splits)
qed

lemma refresh_and_retry_extends:
  "\<exists>cs. calls (snd (refresh_and_retry (makeRequest m ep opts) w)) = calls w @ cs"
proof -
  obtain r w1 where f: "fetchWithTimeout (refresh_call (the (getItem ''refresh_token'' w)) w) w = (r, w1)"
    by (cases "fetchWithTimeout (refresh_call (the (getItem ''refresh_token'' w)) w) w")
  have w1: "calls w1 = calls w @ [refresh_call (the (getItem ''refresh_token'' w)) w]"
    using fetch_calls [of "refresh_call (the (getItem ''refresh_token'' w)) w" w] by (simp add: f)
  show ?thesis
    using w1
    by (auto simp: refresh_and_retry_def f setItem_def makeRequest_calls Let_def
        split: sum.splits if_splits)
qed

lemma handleAuthError_frame:
  "intervals (snd (handleAuthError (makeRequest m ep opts) url w)) = intervals w \<and>
   interval_seq (snd (handleAuthError (makeRequest m ep opts) url w)) = interval_seq w \<and>
   route (snd (handleAuthError (makeRequest m ep opts) url w)) = route w"
  using refresh_and_retry_frame [of m ep opts w]
  by (auto simp: handleAuthError_def removeItem_def split: prod.splits sum.splits)

lemma handleAuthError_extends:
  "\<exists>cs. calls (snd (handleAuthError (makeRequest m ep opts) url w)) = calls w @ cs"
  using refresh_and_retry_extends [of m ep opts w]
  by (auto simp: handleAuthError_def removeItem_def split: prod.splits sum.splits)

lemma request_frame:
  "intervals (snd (request m ep opts w)) = intervals w \<and>
   interval_seq (snd (request m ep opts w)) = interval_seq w \<and>
   route (snd (request m ep opts w)) = route w"
proof -
  obtain res w1 where f: "makeRequest m ep opts w = (res, w1)"
    by (cases "makeRequest m ep opts w")
  have w1: "intervals w1 = intervals w \<and> interval_seq w1 = interval_seq w \<and> route w1 = route w"
    using makeRequest_frame [of m ep opts w] by (simp add: f)
  show ?thesis
    using w1 handleAuthError_frame [of m ep opts ep w1]
    by (auto simp: request_def f split: sum.splits)
qed

lemma request_first_call:
  "\<exists>cs. calls (snd (request m ep opts w)) = calls w @ requestOptions m ep opts w # cs"
proof -
  obtain res w1 where f: "makeRequest m ep opts w = (res, w1)"
    by (cases "makeRequest m ep opts w")
  have w1: "calls w1 = calls w @ [requestOptions m ep opts w]"
    using makeRequest_calls [of m ep opts w] by (simp add: f)
  show ?thesis
    using w1 handleAuthError_extends [of m ep opts ep w1]
    by (auto simp: request_def f split: sum.splits)
qed

lemma status_frame:
  "authService_getQRLoginStatus sc w = (res, w1) \<Longrightarrow>
   intervals w1 = intervals w \<and> interval_seq w1 = interval_seq w \<and> route w1 = route w"
  using request_frame [of "''GET''" "status_url sc" no_options w]
  by (simp add: authService_getQRLoginStatus_def apiRequest_get_def no_options_def)

lemma status_first_call:
  "\<exists>cs. calls (snd (authService_getQRLoginStatus sc w)) =
         calls w @ requestOptions ''GET'' (status_url sc) no_options w # cs"
  using request_first_call [of "''GET''" "status_url sc" no_options w]
  by (simp add: authService_getQRLoginStatus_def apiRequest_get_def no_options_def)

lemma request_settled_frame:
  "intervals (snd (request_settled m ep opts r w)) = intervals w \<and>
   interval_seq (snd (request_settled m ep opts r w)) = interval_seq w \<and>
   route (snd (request_settled m ep opts r w)) = route w"
  using handleAuthError_frame [of m ep opts ep w]
  by (auto simp: request_settled_def split: sum.splits)

lemma request_settled_extends:
  "\<exists>cs. calls (snd (request_settled m ep opts r w)) = calls w @ cs"
  using handleAuthError_extends [of m ep opts ep w]
  by (auto simp: request_settled_def split: sum.splits)

text \<open>The two halves of the callback, and of \<^verbatim>\<open>createQR\<close>, put together are the service call
  followed by the rest.\<close>

lemma status_unfold:
  "authService_getQRLoginStatus sc w =
     (let (r, w1) = poll_begin sc w in request_settled ''GET'' (status_url sc) no_options r w1)"
  by (simp add: authService_getQRLoginStatus_def apiRequest_get_def request_unfold poll_begin_def
      no_options_def)

lemma create_unfold:
  "authService_createQRLogin pool app w =
     (let (r, w1) = fetchWithTimeout
                      (requestOptions ''GET'' ''/api/v1/auth/qr/create'' (create_options pool app) w) w
      in request_settled ''GET'' ''/api/v1/auth/qr/create'' (create_options pool app) r w1)"
  by (simp add: authService_createQRLogin_def apiRequest_get_def request_unfold create_options_def)

lemma createQR_frame:
  "authService_createQRLogin pool app w = (res, w1) \<Longrightarrow> intervals w1 = intervals w"
  using request_frame [of "''GET''" "''/api/v1/auth/qr/create''"
      "no_options\<lparr>opt_params := Some [(''user_pool_id'', Some (PNum pool)), (''app_id'', Some (PStr app))]\<rparr>" w]
  by (simp add: authService_createQRLogin_def apiRequest_get_def)

lemma poll_run:
  "poll sc (p, s, w) =
     (case authService_getQRLoginStatus sc w of
        (Inl e, w1) \<Rightarrow> poll_failed (p, s, w1)
      | (Inr response, w1) \<Rightarrow> poll_received response (p, s, w1))"
  by (simp add: poll_def poll_resume_def status_unfold case_prod_beta Let_def
      split: prod.splits sum.splits)

lemma createQR_run:
  "createQR pool (p, w) =
     (case authService_createQRLogin pool ''default-app'' w of
        (Inl e, w1) \<Rightarrow> (p\<lparr>isCreating := True, status := Reported expired, isCreating := False\<rparr>, w1)
      | (Inr response, w1) \<Rightarrow> created response (p\<lparr>isCreating := True\<rparr>, w1))"
  by (simp add: createQR_def createQR_begin_def createQR_resume_def create_unfold case_prod_beta
      Let_def split: prod.splits sum.splits)

lemma stopPolling_owned:
  "timer_owned p w \<Longrightarrow>
   intervalRef (fst (stopPolling (p, w))) = None \<and> intervals (snd (stopPolling (p, w))) = []"
  by (cases "intervalRef p") (auto simp: timer_owned_def stopPolling_def clearInterval_def)

lemma stopPolling_frame:
  "calls (snd (stopPolling pw)) = calls (snd pw) \<and> replies (snd (stopPolling pw)) = replies (snd pw) \<and>
   localStorage (snd (stopPolling pw)) = localStorage (snd pw) \<and>
   status (fst (stopPolling pw)) = status (fst pw) \<and> qrData (fst (stopPolling pw)) = qrData (fst pw)"
  by (cases pw) (simp add: stopPolling_def clearInterval_def)


lemma fire_idle: "intervals w = [] \<Longrightarrow> fire j (p, s, w) = (p, s, w)"
  by (simp add: fire_def)

lemma poll_first_call:
  "\<exists>cs. calls (snd (snd (poll sc (p, s, w)))) =
         calls w @ requestOptions ''GET'' (status_url sc) no_options w # cs"
proof -
  obtain res w1 where f: "authService_getQRLoginStatus sc w = (res, w1)"
    by (cases "authService_getQRLoginStatus sc w")
  obtain cs where w1: "calls w1 = calls w @ requestOptions ''GET'' (status_url sc) no_options w # cs"
    using status_first_call [of sc w] by (auto simp: f)
  have stop: "\<And>q v. calls (snd (stopPolling (q, v))) = calls v"
    using stopPolling_frame by simp
  have "calls (snd (snd (poll sc (p, s, w)))) = calls w1"
    by (simp add: poll_run poll_received_def f poll_failed_def setTokens_def setItem_def Let_def
        case_prod_beta stop split: sum.splits)
  then show ?thesis using w1 by simp
qed

text \<open>Every operation of the page keeps the timer owned.\<close>

lemma timer_owned_initial: "intervals w = [] \<Longrightarrow> timer_owned initial_poller w"
  by (simp add: timer_owned_def initial_poller_def)

lemma timer_owned_stopPolling:
  "timer_owned p w \<Longrightarrow> timer_owned (fst (stopPolling (p, w))) (snd (stopPolling (p, w)))"
  using stopPolling_owned [of p w] by (simp add: timer_owned_def)

lemma timer_owned_startPolling:
  "timer_owned p w \<Longrightarrow> timer_owned (fst (startPolling sc (p, w))) (snd (startPolling sc (p, w)))"
  by (cases "intervalRef p")
    (auto simp: timer_owned_def startPolling_def setInterval_def clearInterval_def Let_def)

lemma timer_owned_poll:
  assumes "timer_owned p w"
  shows "timer_owned (fst (poll sc (p, s, w))) (snd (snd (poll sc (p, s, w))))"
proof -
  obtain res w1 where f: "authService_getQRLoginStatus sc w = (res, w1)"
    by (cases "authService_getQRLoginStatus sc w")
  have o: "\<And>x. timer_owned (p\<lparr>status := x\<rparr>) w1"
    using assms status_frame [OF f] by (simp add: timer_owned_def)
  have o': "\<And>x k a k' a'. timer_owned (p\<lparr>status := x\<rparr>) (setItem k a (setItem k' a' w1))"
    using assms status_frame [OF f] by (simp add: timer_owned_def setItem_def)
  have o'': "timer_owned p w1"
    using assms status_frame [OF f] by (simp add: timer_owned_def)
  have r: "\<And>q v x. timer_owned q v \<Longrightarrow> timer_owned q (v\<lparr>route := x\<rparr>)"
    by (simp add: timer_owned_def)
  have e: "\<And>q v x. timer_owned q v \<Longrightarrow> timer_owned (q\<lparr>status := x\<rparr>) v"
    by (simp add: timer_owned_def)
  show ?thesis
    by (simp add: poll_run poll_received_def f poll_failed_def setTokens_def Let_def case_prod_beta
        timer_owned_stopPolling o o' o'' r e split: sum.splits)
qed

lemma timer_owned_fire:
  "timer_owned p w \<Longrightarrow> timer_owned (fst (fire j (p, s, w))) (snd (snd (fire j (p, s, w))))"
  using timer_owned_poll by (simp add: fire_def split: option.splits)

lemma timer_owned_createQR:
  assumes "timer_owned p w"
  shows "timer_owned (fst (createQR pool (p, w))) (snd (createQR pool (p, w)))"
proof -
  obtain res w1 where f: "authService_createQRLogin pool ''default-app'' w = (res, w1)"
    by (cases "authService_createQRLogin pool ''default-app'' w")
  have o: "\<And>q. intervalRef q = intervalRef p \<Longrightarrow> timer_owned q w1"
    using assms createQR_frame [OF f] by (simp add: timer_owned_def)
  have e: "\<And>q v x. timer_owned q v \<Longrightarrow> timer_owned (q\<lparr>isCreating := x\<rparr>) v"
    by (simp add: timer_owned_def)
  show ?thesis
    by (simp add: createQR_run created_def f Let_def case_prod_beta timer_owned_startPolling o e
        split: sum.splits)
qed

lemma timer_owned_refreshQR:
  assumes "timer_owned p w"
  shows "timer_owned (fst (refreshQR pool (p, w))) (snd (refreshQR pool (p, w)))"
proof -
  have "timer_owned (fst (stopPolling (p, w))\<lparr>qrData := NoData, status := loading\<rparr>) (snd (stopPolling (p, w)))"
    using timer_owned_stopPolling [OF assms] by (simp add: timer_owned_def)
  then show ?thesis
    by (simp add: refreshQR_def case_prod_beta timer_owned_createQR)
qed

text \<open>\<^verbatim>\<open>startPolling\<close> registers its callback with a period of 2000 ms.\<close>

lemma startPolling_period:
  "intervals w = [] \<Longrightarrow>
   intervals (snd (startPolling sc (p, w))) = [(Suc (interval_seq w), 2000, sc)] \<and>
   intervalRef (fst (startPolling sc (p, w))) = Some (Suc (interval_seq w))"
  by (simp add: startPolling_def setInterval_def clearInterval_def Let_def)


text \<open>
  C10. A status of confirmed without a token becomes the displayed status, but the timer
  stays and no credentials are adopted: the session state is unchanged, and when the
  timer fires again the next call in the log is another status query for the scene.
\<close>

theorem confirmed_without_token:
  assumes "intervalRef p = Some i" and "i \<noteq> 0" and "intervals w = [(i, 2000, sceneId)]"
    and "authService_getQRLoginStatus sceneId w = (Inr r, w1)"
    and "data_of r = QRStatusData d" and "qr_state d = confirmed" and "qr_token d = None"
  shows "fire i (p, s, w) = (p\<lparr>status := Reported confirmed\<rparr>, s, w1) \<and>
         intervals w1 = [(i, 2000, sceneId)] \<and>
         length (calls w1) <
           length (calls (snd (snd (fire i (p\<lparr>status := Reported confirmed\<rparr>, s, w1))))) \<and>
         fc_path (calls (snd (snd (fire i (p\<lparr>status := Reported confirmed\<rparr>, s, w1)))) !
                  length (calls w1)) = status_url sceneId"
proof -
  have w1: "intervals w1 = [(i, 2000, sceneId)]"
    using status_frame [OF assms(4)] assms(3) by simp
  have first: "fire i (p, s, w) = (p\<lparr>status := Reported confirmed\<rparr>, s, w1)"
    using assms by (simp add: fire_def poll_run poll_received_def)
  have again: "fire i (p\<lparr>status := Reported confirmed\<rparr>, s, w1) =
               poll sceneId (p\<lparr>status := Reported confirmed\<rparr>, s, w1)"
    using w1 by (simp add: fire_def)
  obtain cs where c: "calls (snd (snd (poll sceneId (p\<lparr>status := Reported confirmed\<rparr>, s, w1)))) =
      calls w1 @ requestOptions ''GET'' (status_url sceneId) no_options w1 # cs"
    using poll_first_call by blast
  show ?thesis
    using first w1 by (simp add: again c requestOptions_def buildUrl_def nth_append)
qed

text \<open>
  What holds of \<^verbatim>\<open>stopPolling\<close> in every state: a second call changes nothing, and it
  makes no network call. When the page owns its timer, no timer is live afterwards, so
  no timer firing does anything.
\<close>

lemma stopPolling_idempotent:
  "stopPolling (stopPolling (p, w)) = stopPolling (p, w) \<and>
   calls (snd (stopPolling (p, w))) = calls w \<and>
   replies (snd (stopPolling (p, w))) = replies w \<and>
   (timer_owned p w \<longrightarrow>
      intervalRef (fst (stopPolling (p, w))) = None \<and>
      intervals (snd (stopPolling (p, w))) = [] \<and>
      (\<forall>j s. fire j (fst (stopPolling (p, w)), s, snd (stopPolling (p, w))) =
              (fst (stopPolling (p, w)), s, snd (stopPolling (p, w)))))"
  using stopPolling_owned [of p w] stopPolling_frame [of "(p, w)"]
  by (auto simp: fire_idle) (auto simp: stopPolling_def)

subsection \<open>Concrete runs\<close>

lemmas poller_example_defs = polling_page_def polling_world_def status_reply_def
  authService_getQRLoginStatus_def status_url_def

lemma polling_example:
  "intervalRef polling_page = Some 1" "(1::nat) \<noteq> 0"
  "intervals (polling_world script) = [(1, 2000, ''S1'')]"
  "timer_owned polling_page (polling_world script)"
  by (simp_all add: polling_page_def polling_world_def browser_def timer_owned_def)

lemma status_example:
  "fst (authService_getQRLoginStatus ''S1'' (polling_world [status_reply st tok])) =
     Inr (Json \<lparr>code = 200, message = ''ok'',
            data = QRStatusData \<lparr>qr_state = st, qr_user = map_option token_user tok, qr_token = tok\<rparr>,
            timestamp = ''t''\<rparr>)"
  by (simp add: poller_example_defs pipeline_defs example_defs)



theorem confirmed_without_token_witness:
  "status (fst (fire 1 (polling_page, initial_state, polling_world [status_reply confirmed None]))) =
     Reported confirmed \<and>
   intervalRef (fst (fire 1 (polling_page, initial_state, polling_world [status_reply confirmed None]))) =
     Some 1 \<and>
   fst (snd (fire 1 (polling_page, initial_state, polling_world [status_reply confirmed None]))) =
     initial_state \<and>
   intervals (snd (snd (fire 1 (polling_page, initial_state, polling_world [status_reply confirmed None])))) =
     [(1, 2000, ''S1'')]"
proof -
  let ?w = "polling_world [status_reply confirmed None]"
  let ?r = "Json \<lparr>code = 200, message = ''ok'',
            data = QRStatusData \<lparr>qr_state = confirmed, qr_user = None, qr_token = None\<rparr>,
            timestamp = ''t''\<rparr>"
  have h: "authService_getQRLoginStatus ''S1'' ?w = (Inr ?r, snd (authService_getQRLoginStatus ''S1'' ?w))"
    using status_example [of confirmed None] by (simp add: prod_eq_iff)
  have d: "data_of ?r = QRStatusData \<lparr>qr_state = confirmed, qr_user = None, qr_token = None\<rparr>"
    by simp
  show ?thesis
    using confirmed_without_token [OF polling_example(1,2,3) h d, of initial_state]
    by (simp add: polling_page_def)
qed

lemma stopPolling_idempotent_example:
  "stopPolling (stopPolling (polling_page, polling_world [])) =
     stopPolling (polling_page, polling_world []) \<and>
   intervalRef (fst (stopPolling (polling_page, polling_world []))) = None \<and>
   intervals (snd (stopPolling (polling_page, polling_world []))) = [] \<and>
   calls (snd (stopPolling (polling_page, polling_world []))) = []"
  using stopPolling_idempotent [of polling_page "polling_world []"] polling_example(4) [of "[]"]
  by (simp add: polling_world_def browser_def)

text \<open>
  The ceremony of the specification's scenario: created with scene \<open>S1\<close>, then three
  polls answering pending, scanned, and confirmed with the pair \<open>A2\<close>, \<open>R2\<close>. The
  timer is gone after the third poll and the fourth reply is never asked for.
\<close>

lemma ceremony_scenario:
  "(case fire 1 (fire 1 (fire 1 (polling_page, initial_state,
        polling_world [status_reply pending None, status_reply scanned None,
          status_reply confirmed (Some (token_pair ''A2'' ''R2'')), status_reply pending None]))) of
      (p, s, w) \<Rightarrow>
        status p = Reported confirmed \<and> intervalRef p = None \<and> intervals w = [] \<and>
        isAuthenticated s \<and> accessToken s = Some ''A2'' \<and> refreshToken s = Some ''R2'' \<and>
        user s = Some alice \<and> length (calls w) = 3 \<and> length (replies w) = 1 \<and>
        route w = Some ''/dashboard'')"
  by (simp add: fire_def poll_def poll_begin_def poll_resume_def poll_received_def
      request_settled_def poller_example_defs pipeline_defs example_defs setTokens_def
      stopPolling_def clearInterval_def initial_state_def)


text \<open>
  C7, where the code falls short of it. The page is discarded while the creation call is
  still awaited: the cleanup finds no timer in \<^verbatim>\<open>intervalRef\<close> and clears nothing;
  when the call settles, \<^verbatim>\<open>createQR\<close> goes on to \<^verbatim>\<open>startPolling\<close>. After the
  teardown a timer is live, and its firing sends a status query.
\<close>

theorem teardown_while_creating:
  "stopPolling (fst (createQR_begin 1 (initial_poller, browser Map.empty [creation_reply, status_reply pending None])),
                snd (snd (createQR_begin 1 (initial_poller, browser Map.empty [creation_reply, status_reply pending None])))) =
     (fst (createQR_begin 1 (initial_poller, browser Map.empty [creation_reply, status_reply pending None])),
      snd (snd (createQR_begin 1 (initial_poller, browser Map.empty [creation_reply, status_reply pending None])))) \<and>
   intervals (snd (unmount_while_creating 1
      (initial_poller, browser Map.empty [creation_reply, status_reply pending None]))) =
     [(1, 2000, ''S1'')] \<and>
   map fc_path (calls (snd (unmount_while_creating 1
      (initial_poller, browser Map.empty [creation_reply, status_reply pending None])))) =
     [''/api/v1/auth/qr/create''] \<and>
   map fc_path (calls (snd (snd (fire 1
      (fst (unmount_while_creating 1
         (initial_poller, browser Map.empty [creation_reply, status_reply pending None])),
       initial_state,
       snd (unmount_while_creating 1
         (initial_poller, browser Map.empty [creation_reply, status_reply pending None]))))))) =
     [''/api/v1/auth/qr/create'', ''/api/v1/auth/qr/S1/status'']"
  by (simp add: unmount_while_creating_def createQR_begin_def createQR_resume_def created_def
      create_options_def startPolling_def setInterval_def stopPolling_def clearInterval_def
      initial_poller_def creation_reply_def request_settled_def fire_def poll_def poll_begin_def
      poll_resume_def poll_received_def poller_example_defs pipeline_defs example_defs)

text \<open>
  Two ticks that overlap: both status queries leave before either has settled, and the
  second continuation runs on the state the first has left (timer stopped, session
  authenticated), setting the displayed status once more.
\<close>

lemma overlapping_ticks:
  "(let w0 = polling_world
               [status_reply confirmed (Some (token_pair ''A2'' ''R2'')), status_reply scanned None];
        (r1, w1) = poll_begin ''S1'' w0;
        (r2, w2) = poll_begin ''S1'' w1;
        (p3, s3, w3) = poll_resume ''S1'' r1 (polling_page, initial_state, w2);
        (p4, s4, w4) = poll_resume ''S1'' r2 (p3, s3, w3)
    in length (calls w2) = 2 \<and> status p3 = Reported confirmed \<and> intervals w3 = [] \<and>
       isAuthenticated s4 \<and> status p4 = Reported scanned \<and> intervals w4 = [] \<and>
       length (calls w4) = 2)"
  by (simp add: poll_begin_def poll_resume_def poll_received_def request_settled_def
      poller_example_defs pipeline_defs example_defs setTokens_def stopPolling_def
      clearInterval_def initial_state_def)

end
